theory Spec2Isabelle
  imports Complex_Main "HOL-Library.Sublist"
begin

section \<open>Python values, exceptions and dataframe rows\<close>

text \<open>
  The notebook \<^verbatim>\<open>tutorials/building_text_classifier.ipynb\<close> reads the SNLI files with
  \<^verbatim>\<open>pd.read_csv\<close>. A cell of the resulting dataframe is a Python scalar: a \<^verbatim>\<open>str\<close>,
  the float \<^verbatim>\<open>nan\<close> that pandas stores for a missing field, or a number.
\<close>

datatype pyval = PyStr string | PyNaN | PyInt int

datatype py_error =
    KeyError string
  | AssertionError
  | ZeroDivisionError
  | URLError
  | BadZipFile
  | OSError

text \<open>
  A row as \<^verbatim>\<open>df.iterrows()\<close> yields it: the index label and a series that maps column
  names to cells. \<^verbatim>\<open>row[k]\<close> raises \<^verbatim>\<open>KeyError\<close> when the column is absent.
\<close>

type_synonym series = "string \<rightharpoonup> pyval"

type_synonym dataframe = "(int \<times> series) list"

definition getitem :: "series \<Rightarrow> string \<Rightarrow> py_error + pyval" where
  "getitem row k = (case row k of None \<Rightarrow> Inl (KeyError k) | Some v \<Rightarrow> Inr v)"

text \<open>\<^verbatim>\<open>isinstance(v, str)\<close>.\<close>

fun isinstance_str :: "pyval \<Rightarrow> bool" where
  "isinstance_str (PyStr s) = True"
| "isinstance_str PyNaN = False"
| "isinstance_str (PyInt i) = False"

text \<open>
  \<^verbatim>\<open>v in xs\<close> for a list of strings: Python compares with \<^verbatim>\<open>==\<close>, and neither
  \<^verbatim>\<open>nan\<close> nor a number is equal to a string.
\<close>

fun py_in :: "pyval \<Rightarrow> string list \<Rightarrow> bool" where
  "py_in (PyStr s) xs = (s \<in> set xs)"
| "py_in PyNaN xs = False"
| "py_in (PyInt i) xs = False"

text \<open>\<^verbatim>\<open>str(i)\<close> for an integer, as the f-string \<^verbatim>\<open>f"{index}-{set_type}"\<close> formats it.\<close>

fun str_nat :: "nat \<Rightarrow> string" where
  "str_nat n =
     (if n < 10 then [''0123456789'' ! n]
      else str_nat (n div 10) @ [''0123456789'' ! (n mod 10)])"

declare str_nat.simps [simp del]

definition py_str :: "int \<Rightarrow> string" where
  "py_str i = (if i < 0 then CHR ''-'' # str_nat (nat (- i)) else str_nat (nat i))"

section \<open>Parsing rows into examples\<close>

definition LABEL_LIST :: "string list" where
  "LABEL_LIST = [''contradiction'', ''entailment'', ''neutral'']"

definition MAX_SEQ_LENGHT :: nat where
  "MAX_SEQ_LENGHT = 128"

text \<open>\<^verbatim>\<open>transformers.InputExample\<close>: a plain record; Python does not type its fields.\<close>

record InputExample =
  guid :: string
  text_a :: pyval
  text_b :: pyval
  label :: pyval

text \<open>
  The loop of \<^verbatim>\<open>_create_examples\<close>, with the list \<^verbatim>\<open>examples\<close> as accumulator. The two
  \<^verbatim>\<open>continue\<close> statements are the two branches that recurse without appending; the
  \<^verbatim>\<open>or\<close> of the second test evaluates \<^verbatim>\<open>row['sentence2']\<close> only when the first
  sentence is a string. The cells read again when the example is built are the ones
  already read by the tests.
\<close>

fun create_examples_loop ::
  "dataframe \<Rightarrow> string \<Rightarrow> InputExample list \<Rightarrow> py_error + InputExample list" where
  "create_examples_loop [] set_type examples = Inr examples"
| "create_examples_loop ((index, row) # rest) set_type examples =
     (case getitem row ''gold_label'' of
        Inl e \<Rightarrow> Inl e
      | Inr gold \<Rightarrow>
          if \<not> py_in gold LABEL_LIST then create_examples_loop rest set_type examples
          else
            (case getitem row ''sentence1'' of
               Inl e \<Rightarrow> Inl e
             | Inr s1 \<Rightarrow>
                 if \<not> isinstance_str s1 then create_examples_loop rest set_type examples
                 else
                   (case getitem row ''sentence2'' of
                      Inl e \<Rightarrow> Inl e
                    | Inr s2 \<Rightarrow>
                        if \<not> isinstance_str s2
                        then create_examples_loop rest set_type examples
                        else create_examples_loop rest set_type
                               (examples @
                                [\<lparr>guid = py_str index @ ''-'' @ set_type,
                                  text_a = s1, text_b = s2, label = gold\<rparr>]))))"

definition create_examples :: "dataframe \<Rightarrow> string \<Rightarrow> py_error + InputExample list" where
  "create_examples df set_type = create_examples_loop df set_type []"

text \<open>
  The description the specification gives of the same function: keep the rows whose label
  is one of the three classes and whose two sentences are strings, in order, and copy the
  three cells into the example.
\<close>

definition has_columns :: "series \<Rightarrow> bool" where
  "has_columns row \<longleftrightarrow>
     row ''gold_label'' \<noteq> None \<and> row ''sentence1'' \<noteq> None \<and> row ''sentence2'' \<noteq> None"

definition well_formed_row :: "int \<times> series \<Rightarrow> bool" where
  "well_formed_row ir =
     (case snd ir ''gold_label'' of
        None \<Rightarrow> False
      | Some gold \<Rightarrow>
          py_in gold LABEL_LIST \<and>
          (case snd ir ''sentence1'' of
             None \<Rightarrow> False
           | Some s1 \<Rightarrow>
               isinstance_str s1 \<and>
               (case snd ir ''sentence2'' of None \<Rightarrow> False | Some s2 \<Rightarrow> isinstance_str s2)))"

definition example_of_row :: "string \<Rightarrow> int \<times> series \<Rightarrow> InputExample" where
  "example_of_row set_type ir =
     \<lparr>guid = py_str (fst ir) @ ''-'' @ set_type,
      text_a = the (snd ir ''sentence1''),
      text_b = the (snd ir ''sentence2''),
      label = the (snd ir ''gold_label'')\<rparr>"

definition copies_row :: "string \<Rightarrow> int \<times> series \<Rightarrow> InputExample \<Rightarrow> bool" where
  "copies_row set_type ir ex \<longleftrightarrow>
     snd ir ''sentence1'' = Some (text_a ex) \<and>
     snd ir ''sentence2'' = Some (text_b ex) \<and>
     snd ir ''gold_label'' = Some (label ex) \<and>
     guid ex = py_str (fst ir) @ ''-'' @ set_type"

subsection \<open>Converting examples to features\<close>

text \<open>
  \<^verbatim>\<open>_df_to_features\<close> hands the examples to \<^verbatim>\<open>glue_convert_examples_to_features\<close> of
  the \<^verbatim>\<open>transformers\<close> library, with the tokenizer, \<^verbatim>\<open>LABEL_LIST\<close>,
  \<^verbatim>\<open>MAX_SEQ_LENGHT\<close> and, for a library older than 2.9.0, three padding arguments. The
  converter is a parameter: its code is not part of the notebook.
\<close>

record InputFeatures =
  feature_input_ids :: "int list"
  feature_attention_mask :: "int list"
  feature_token_type_ids :: "int list"
  feature_label :: int

record legacy_kwargs =
  pad_on_left :: bool
  pad_token :: int
  pad_token_segment_id :: int

type_synonym converter =
  "InputExample list \<Rightarrow> string list \<Rightarrow> nat \<Rightarrow> legacy_kwargs option \<Rightarrow> py_error + InputFeatures list"

definition df_to_features ::
  "converter \<Rightarrow> bool \<Rightarrow> int \<Rightarrow> dataframe \<Rightarrow> string \<Rightarrow> py_error + InputFeatures list" where
  "df_to_features glue_convert_examples_to_features older_than_2_9_0 pad_token_id df set_type =
     (case create_examples df set_type of
        Inl e \<Rightarrow> Inl e
      | Inr examples \<Rightarrow>
          (let legacy_kwards =
                 (if older_than_2_9_0
                  then Some \<lparr>pad_on_left = False, pad_token = pad_token_id,
                              pad_token_segment_id = 0\<rparr>
                  else None)
           in glue_convert_examples_to_features examples LABEL_LIST MAX_SEQ_LENGHT legacy_kwards))"

text \<open>What the docstring of \<^verbatim>\<open>_df_to_features\<close> says of the converter: it cuts or pads.\<close>

definition pads_to_max_length :: "converter \<Rightarrow> bool" where
  "pads_to_max_length conv \<longleftrightarrow>
     (\<forall>examples label_list max_length kwargs features.
        conv examples label_list max_length kwargs = Inr features \<longrightarrow>
        (\<forall>f \<in> set features.
           length (feature_input_ids f) = max_length \<and>
           length (feature_attention_mask f) = max_length \<and>
           length (feature_token_type_ids f) = max_length))"

section \<open>Downloading the dataset\<close>





text \<open>
  A row over the three columns the notebook reads, and an outside world for evaluating
  \<^verbatim>\<open>download_and_extract\<close>: the world counts the library calls made, and the call
  with number \<open>k\<close> (from 0) raises.
\<close>

definition snli_row :: "pyval \<Rightarrow> pyval \<Rightarrow> pyval \<Rightarrow> series" where
  "snli_row s1 s2 gold = [''sentence1'' \<mapsto> s1, ''sentence2'' \<mapsto> s2, ''gold_label'' \<mapsto> gold]"



section \<open>Freezing layers\<close>

text \<open>
  The parameters of the model are objects shared between \<^verbatim>\<open>model.parameters()\<close> and the
  \<^verbatim>\<open>parameters()\<close> of its sub-modules, and the cell mutates their \<^verbatim>\<open>requires_grad\<close>
  flag, so the parameters live in a store and the iterators are lists of addresses. What
  the store holds and which addresses each iterator yields is the structure of the
  loaded network, a parameter of the model.
\<close>

record parameter =
  numel :: nat
  requires_grad :: bool

type_synonym addr = nat

type_synonym store = "addr \<Rightarrow> parameter"

text \<open>The first loop: \<^verbatim>\<open>p.requires_grad = False; total_params += p.numel()\<close>.\<close>

fun freeze_loop :: "addr list \<Rightarrow> store \<times> nat \<Rightarrow> store \<times> nat" where
  "freeze_loop [] (h, total_params) = (h, total_params)"
| "freeze_loop (p # ps) (h, total_params) =
     freeze_loop ps (h(p := (h p)\<lparr>requires_grad := False\<rparr>), total_params + numel (h p))"

text \<open>The inner and the outer loop over \<^verbatim>\<open>trainable_layers\<close>.\<close>

fun unfreeze_layer :: "addr list \<Rightarrow> store \<times> nat \<Rightarrow> store \<times> nat" where
  "unfreeze_layer [] (h, trainable_params) = (h, trainable_params)"
| "unfreeze_layer (p # ps) (h, trainable_params) =
     unfreeze_layer ps (h(p := (h p)\<lparr>requires_grad := True\<rparr>), trainable_params + numel (h p))"

fun unfreeze_layers :: "addr list list \<Rightarrow> store \<times> nat \<Rightarrow> store \<times> nat" where
  "unfreeze_layers [] (h, trainable_params) = (h, trainable_params)"
| "unfreeze_layers (layer # layers) (h, trainable_params) =
     unfreeze_layers layers (unfreeze_layer layer (h, trainable_params))"

record freeze_result =
  params_store :: store
  total_params :: nat
  trainable_params :: nat

definition freeze_cell :: "addr list \<Rightarrow> addr list list \<Rightarrow> store \<Rightarrow> freeze_result" where
  "freeze_cell model_parameters trainable_layers h =
     (let (h1, total) = freeze_loop model_parameters (h, 0);
          (h2, trainable) = unfreeze_layers trainable_layers (h1, 0)
      in \<lparr>params_store = h2, total_params = total, trainable_params = trainable\<rparr>)"

text \<open>The two counts of the claim, read off the store after the cell has run.\<close>

definition frozen_count :: "store \<Rightarrow> addr list \<Rightarrow> nat" where
  "frozen_count h ps = sum_list (map (\<lambda>p. numel (h p)) (filter (\<lambda>p. \<not> requires_grad (h p)) ps))"

definition trainable_count :: "store \<Rightarrow> addr list \<Rightarrow> nat" where
  "trainable_count h ps = sum_list (map (\<lambda>p. numel (h p)) (filter (\<lambda>p. requires_grad (h p)) ps))"

section \<open>Training with virtual batches\<close>
















subsection \<open>The evaluation cycle\<close>




subsection \<open>The training loop\<close>













section \<open>The calls a run makes\<close>














text \<open>A store for evaluating the freezing cell: the parameter at address \<open>p\<close> has \<open>p + 1\<close> elements.\<close>

definition tiny_store :: store where
  "tiny_store = (\<lambda>p. \<lparr>numel = p + 1, requires_grad = True\<rparr>)"

section \<open>Properties of the row filter\<close>

lemma getitem_Some [simp]: "row k = Some v \<Longrightarrow> getitem row k = Inr v"
  by (simp add: getitem_def)

lemma getitem_None [simp]: "row k = None \<Longrightarrow> getitem row k = Inl (KeyError k)"
  by (simp add: getitem_def)

lemma create_examples_loop_result:
  "create_examples_loop df set_type acc = Inr out \<Longrightarrow>
   out = acc @ map (example_of_row set_type) (filter well_formed_row df)"
proof (induction df arbitrary: acc)
  case Nil
  then show ?case by simp
next
  case (Cons ir df)
  obtain i row where ir: "ir = (i, row)" by (cases ir)
  show ?case
  proof (cases "well_formed_row ir")
    case True
    then obtain g a b where
      g: "row ''gold_label'' = Some g" "py_in g LABEL_LIST"
      and a: "row ''sentence1'' = Some a" "isinstance_str a"
      and b: "row ''sentence2'' = Some b" "isinstance_str b"
      by (auto simp: ir well_formed_row_def split: option.splits)
    from Cons.prems have "create_examples_loop df set_type
        (acc @ [example_of_row set_type ir]) = Inr out"
      by (simp add: ir g a b example_of_row_def)
    from Cons.IH [OF this] True show ?thesis by simp
  next
    case False
    have "create_examples_loop df set_type acc = Inr out"
    proof (cases "row ''gold_label''")
      case None
      with Cons.prems show ?thesis by (simp add: ir)
    next
      case g: (Some g)
      show ?thesis
      proof (cases "py_in g LABEL_LIST")
        case False
        with Cons.prems g show ?thesis by (simp add: ir)
      next
        case in_list: True
        show ?thesis
        proof (cases "row ''sentence1''")
          case None
          with Cons.prems g in_list show ?thesis by (simp add: ir)
        next
          case a: (Some a)
          show ?thesis
          proof (cases "isinstance_str a")
            case False
            with Cons.prems g in_list a show ?thesis by (simp add: ir)
          next
            case str_a: True
            show ?thesis
            proof (cases "row ''sentence2''")
              case None
              with Cons.prems g in_list a str_a show ?thesis by (simp add: ir)
            next
              case b: (Some b)
              from False g in_list a str_a b have "\<not> isinstance_str b"
                by (simp add: ir well_formed_row_def)
              with Cons.prems g in_list a str_a b show ?thesis by (simp add: ir)
            qed
          qed
        qed
      qed
    qed
    from Cons.IH [OF this] False show ?thesis by simp
  qed
qed


lemma create_examples_loop_append:
  "create_examples_loop (xs @ ys) set_type acc =
     (case create_examples_loop xs set_type acc of
        Inl e \<Rightarrow> Inl e
      | Inr acc' \<Rightarrow> create_examples_loop ys set_type acc')"
proof (induction xs arbitrary: acc)
  case Nil
  then show ?case by simp
next
  case (Cons ir xs)
  obtain i row where ir: "ir = (i, row)" by (cases ir)
  show ?case
    unfolding ir
    by (simp add: Cons.IH split: sum.splits)
qed

lemma create_examples_loop_skip:
  "\<not> well_formed_row (i, row) \<Longrightarrow> has_columns row \<or> (\<exists>g. row ''gold_label'' = Some g \<and> \<not> py_in g LABEL_LIST) \<Longrightarrow>
   create_examples_loop ((i, row) # rest) set_type acc = create_examples_loop rest set_type acc"
  by (auto simp: well_formed_row_def has_columns_def split: option.splits)

lemma create_examples_drop_row:
  assumes "\<not> well_formed_row (i, row)"
    and "has_columns row \<or> (\<exists>g. row ''gold_label'' = Some g \<and> \<not> py_in g LABEL_LIST)"
  shows "create_examples (before @ (i, row) # after) set_type =
         create_examples (before @ after) set_type"
  unfolding create_examples_def
  by (simp only: create_examples_loop_append create_examples_loop_skip [OF assms])

lemma label_of_well_formed:
  "well_formed_row ir \<Longrightarrow> \<exists>s \<in> set LABEL_LIST. label (example_of_row set_type ir) = PyStr s"
  by (cases "snd ir ''gold_label''"; cases "the (snd ir ''gold_label'')")
    (auto simp: well_formed_row_def example_of_row_def)

lemma texts_of_well_formed:
  "well_formed_row ir \<Longrightarrow>
   isinstance_str (text_a (example_of_row set_type ir)) \<and>
   isinstance_str (text_b (example_of_row set_type ir))"
  by (auto simp: well_formed_row_def example_of_row_def split: option.splits)

lemma copies_row_example_of_row:
  "well_formed_row ir \<Longrightarrow> copies_row set_type ir (example_of_row set_type ir)"
  by (auto simp: well_formed_row_def example_of_row_def copies_row_def split: option.splits)

lemma py_in_LABEL_LIST:
  "py_in v LABEL_LIST \<longleftrightarrow>
   v \<in> {PyStr ''contradiction'', PyStr ''entailment'', PyStr ''neutral''}"
  by (cases v) (auto simp: LABEL_LIST_def)

lemma create_examples_result:
  "create_examples df set_type = Inr exs \<Longrightarrow>
   exs = map (example_of_row set_type) (filter well_formed_row df)"
  unfolding create_examples_def by (drule create_examples_loop_result) simp

lemma create_examples_member:
  assumes "create_examples df set_type = Inr exs" and "ex \<in> set exs"
  obtains ir where "ir \<in> set df" and "well_formed_row ir"
    and "ex = example_of_row set_type ir"
proof -
  from assms(2) have "ex \<in> example_of_row set_type ` set (filter well_formed_row df)"
    unfolding create_examples_result [OF assms(1)] by simp
  then obtain ir where mem: "ir \<in> set (filter well_formed_row df)"
    and ex: "ex = example_of_row set_type ir"
    by (rule imageE)
  from mem have "ir \<in> set df" and "well_formed_row ir" by simp_all
  then show ?thesis using ex by (rule that)
qed

text \<open>
  C2. A row whose \<^verbatim>\<open>gold_label\<close> is not one of the strings \<^verbatim>\<open>contradiction\<close>,
  \<^verbatim>\<open>entailment\<close>, \<^verbatim>\<open>neutral\<close> is excluded by \<^verbatim>\<open>_create_examples\<close>: wherever the row
  stands in the dataframe, the function returns what it returns on the dataframe without
  that row, and no returned example carries the row's label.
\<close>

theorem create_examples_excludes_unknown_label:
  assumes "row ''gold_label'' = Some v"
    and "v \<notin> {PyStr ''contradiction'', PyStr ''entailment'', PyStr ''neutral''}"
  shows "create_examples (before @ (i, row) # after) set_type =
           create_examples (before @ after) set_type \<and>
         (\<forall>exs. create_examples (before @ (i, row) # after) set_type = Inr exs \<longrightarrow>
            (\<forall>ex \<in> set exs. label ex \<noteq> v))"
proof -
  from assms have bad: "\<not> py_in v LABEL_LIST"
    by (simp only: py_in_LABEL_LIST not_False_eq_True)
  with assms(1) have nwf: "\<not> well_formed_row (i, row)"
    by (simp add: well_formed_row_def)
  have drop: "create_examples (before @ (i, row) # after) set_type =
      create_examples (before @ after) set_type"
    by (rule create_examples_drop_row [OF nwf]) (use assms(1) bad in blast)
  have "label ex \<noteq> v"
    if res: "create_examples (before @ (i, row) # after) set_type = Inr exs"
      and ex: "ex \<in> set exs" for exs ex
  proof -
    from res ex obtain ir where
      "well_formed_row ir" and "ex = example_of_row set_type ir"
      by (rule create_examples_member)
    with label_of_well_formed [of ir set_type] obtain s where
      "s \<in> set LABEL_LIST" and "label ex = PyStr s"
      by auto
    with bad show ?thesis by auto
  qed
  with drop show ?thesis by blast
qed

theorem create_examples_excludes_unknown_label_witness:
  "create_examples
     ([(0, snli_row (PyStr ''A man eats.'') (PyStr ''A man sleeps.'') (PyStr ''contradiction''))] @
      (1, snli_row (PyStr ''A dog runs.'') (PyStr ''It rains.'') (PyStr ''-'')) #
      [(2, snli_row (PyStr ''Children wave.'') (PyStr ''Children are present.'') (PyStr ''entailment''))])
     ''train'' =
   create_examples
     ([(0, snli_row (PyStr ''A man eats.'') (PyStr ''A man sleeps.'') (PyStr ''contradiction''))] @
      [(2, snli_row (PyStr ''Children wave.'') (PyStr ''Children are present.'') (PyStr ''entailment''))])
     ''train''"
  using create_examples_excludes_unknown_label
    [of "snli_row (PyStr ''A dog runs.'') (PyStr ''It rains.'') (PyStr ''-'')" "PyStr ''-''"
      "[(0, snli_row (PyStr ''A man eats.'') (PyStr ''A man sleeps.'') (PyStr ''contradiction''))]"
      1
      "[(2, snli_row (PyStr ''Children wave.'') (PyStr ''Children are present.'') (PyStr ''entailment''))]"
      "''train''"]
  by (simp add: snli_row_def)

text \<open>
  C3. A row whose \<^verbatim>\<open>sentence1\<close> or \<^verbatim>\<open>sentence2\<close> cell is not a string is excluded by
  \<^verbatim>\<open>_create_examples\<close>: the function returns what it returns on the dataframe without
  that row, and both texts of every returned example are strings.
\<close>

theorem create_examples_excludes_non_string_sentence:
  assumes "row ''gold_label'' = Some g"
    and "row ''sentence1'' = Some a"
    and "row ''sentence2'' = Some b"
    and "\<not> isinstance_str a \<or> \<not> isinstance_str b"
  shows "create_examples (before @ (i, row) # after) set_type =
           create_examples (before @ after) set_type \<and>
         (\<forall>exs. create_examples (before @ (i, row) # after) set_type = Inr exs \<longrightarrow>
            (\<forall>ex \<in> set exs. isinstance_str (text_a ex) \<and> isinstance_str (text_b ex)))"
proof -
  from assms have nwf: "\<not> well_formed_row (i, row)"
    by (auto simp: well_formed_row_def)
  from assms have cols: "has_columns row"
    by (simp add: has_columns_def)
  have drop: "create_examples (before @ (i, row) # after) set_type =
      create_examples (before @ after) set_type"
    by (rule create_examples_drop_row [OF nwf]) (use cols in blast)
  have "isinstance_str (text_a ex) \<and> isinstance_str (text_b ex)"
    if res: "create_examples (before @ (i, row) # after) set_type = Inr exs"
      and ex: "ex \<in> set exs" for exs ex
  proof -
    from res ex obtain ir where
      "well_formed_row ir" and "ex = example_of_row set_type ir"
      by (rule create_examples_member)
    then show ?thesis by (simp add: texts_of_well_formed)
  qed
  with drop show ?thesis by blast
qed

theorem create_examples_excludes_non_string_sentence_witness:
  "create_examples
     ([(0, snli_row (PyStr ''A man eats.'') (PyStr ''A man sleeps.'') (PyStr ''contradiction''))] @
      (1, snli_row (PyStr ''A dog runs.'') PyNaN (PyStr ''neutral'')) #
      [(2, snli_row PyNaN (PyStr ''Children are present.'') (PyStr ''entailment''))])
     ''test'' =
   create_examples
     ([(0, snli_row (PyStr ''A man eats.'') (PyStr ''A man sleeps.'') (PyStr ''contradiction''))] @
      [(2, snli_row PyNaN (PyStr ''Children are present.'') (PyStr ''entailment''))])
     ''test''"
  using create_examples_excludes_non_string_sentence
    [of "snli_row (PyStr ''A dog runs.'') PyNaN (PyStr ''neutral'')" "PyStr ''neutral''"
      "PyStr ''A dog runs.''" PyNaN
      "[(0, snli_row (PyStr ''A man eats.'') (PyStr ''A man sleeps.'') (PyStr ''contradiction''))]"
      1
      "[(2, snli_row PyNaN (PyStr ''Children are present.'') (PyStr ''entailment''))]"
      "''test''"]
  by (simp add: snli_row_def)

text \<open>
  C9. \<^verbatim>\<open>_create_examples\<close> is an order-preserving filter. When it returns, the returned
  examples correspond one to one, in order, to the well-formed rows of the dataframe,
  which are a subsequence of its rows; each example holds the cells \<^verbatim>\<open>sentence1\<close>,
  \<^verbatim>\<open>sentence2\<close> and \<^verbatim>\<open>gold_label\<close> of its row unchanged, and its label is a member
  of \<^verbatim>\<open>LABEL_LIST\<close>.
\<close>

theorem create_examples_order_preserving_filter:
  assumes "create_examples df set_type = Inr exs"
  shows "subseq (filter well_formed_row df) df \<and>
         list_all2 (copies_row set_type) (filter well_formed_row df) exs \<and>
         (\<forall>ex \<in> set exs. \<exists>s \<in> set LABEL_LIST. label ex = PyStr s)"
proof -
  have exs: "exs = map (example_of_row set_type) (filter well_formed_row df)"
    using assms by (rule create_examples_result)
  have "list_all2 (copies_row set_type) (filter well_formed_row df) exs"
    unfolding exs list_all2_map2 list_all2_same
    by (simp add: copies_row_example_of_row)
  moreover have "\<exists>s \<in> set LABEL_LIST. label ex = PyStr s" if "ex \<in> set exs" for ex
  proof -
    from assms that obtain ir where "well_formed_row ir" "ex = example_of_row set_type ir"
      by (rule create_examples_member)
    then show ?thesis by (simp add: label_of_well_formed)
  qed
  ultimately show ?thesis by simp
qed

theorem create_examples_order_preserving_filter_witness:
  "create_examples
     [(0, snli_row (PyStr ''A man eats.'') (PyStr ''A man sleeps.'') (PyStr ''contradiction'')),
      (1, snli_row (PyStr ''A dog runs.'') (PyStr ''It rains.'') (PyStr ''-'')),
      (12, snli_row (PyStr ''Children wave.'') (PyStr ''Children are present.'') (PyStr ''entailment''))]
     ''train'' =
   Inr [\<lparr>guid = ''0-train'', text_a = PyStr ''A man eats.'', text_b = PyStr ''A man sleeps.'',
          label = PyStr ''contradiction''\<rparr>,
        \<lparr>guid = ''12-train'', text_a = PyStr ''Children wave.'',
          text_b = PyStr ''Children are present.'', label = PyStr ''entailment''\<rparr>] \<and>
   list_all2 (copies_row ''train'')
     (filter well_formed_row
        [(0, snli_row (PyStr ''A man eats.'') (PyStr ''A man sleeps.'') (PyStr ''contradiction'')),
         (1, snli_row (PyStr ''A dog runs.'') (PyStr ''It rains.'') (PyStr ''-'')),
         (12, snli_row (PyStr ''Children wave.'') (PyStr ''Children are present.'') (PyStr ''entailment''))])
     [\<lparr>guid = ''0-train'', text_a = PyStr ''A man eats.'', text_b = PyStr ''A man sleeps.'',
        label = PyStr ''contradiction''\<rparr>,
      \<lparr>guid = ''12-train'', text_a = PyStr ''Children wave.'',
        text_b = PyStr ''Children are present.'', label = PyStr ''entailment''\<rparr>]"
proof -
  have run: "create_examples
     [(0, snli_row (PyStr ''A man eats.'') (PyStr ''A man sleeps.'') (PyStr ''contradiction'')),
      (1, snli_row (PyStr ''A dog runs.'') (PyStr ''It rains.'') (PyStr ''-'')),
      (12, snli_row (PyStr ''Children wave.'') (PyStr ''Children are present.'') (PyStr ''entailment''))]
     ''train'' =
   Inr [\<lparr>guid = ''0-train'', text_a = PyStr ''A man eats.'', text_b = PyStr ''A man sleeps.'',
          label = PyStr ''contradiction''\<rparr>,
        \<lparr>guid = ''12-train'', text_a = PyStr ''Children wave.'',
          text_b = PyStr ''Children are present.'', label = PyStr ''entailment''\<rparr>]"
    by (simp add: create_examples_def snli_row_def LABEL_LIST_def py_str_def str_nat.simps)
  from create_examples_order_preserving_filter [OF run] run show ?thesis
    by blast
qed

text \<open>
  The notebook passes \<^verbatim>\<open>MAX_SEQ_LENGHT\<close> as \<^verbatim>\<open>max_length\<close>: for a converter that cuts
  or pads to the length it is given, every feature has length 128. Whether the library's
  converter does so is not decided here.
\<close>

lemma df_to_features_lengths:
  assumes "pads_to_max_length conv"
    and "df_to_features conv older pad_id df set_type = Inr features"
    and "f \<in> set features"
  shows "length (feature_input_ids f) = 128 \<and>
         length (feature_attention_mask f) = 128 \<and>
         length (feature_token_type_ids f) = 128"
proof -
  from assms(2) obtain examples kwargs where
    "conv examples LABEL_LIST MAX_SEQ_LENGHT kwargs = Inr features"
    by (auto simp: df_to_features_def Let_def split: sum.splits)
  with assms(1,3) show ?thesis
    unfolding pads_to_max_length_def MAX_SEQ_LENGHT_def by blast
qed

section \<open>Properties of the training loop and of the evaluation cycle\<close>






























section \<open>Properties of the freezing cell\<close>

lemma numel_upd [simp]: "numel ((h(p := (h p)\<lparr>requires_grad := v\<rparr>)) q) = numel (h q)"
  by simp

lemma numel_if [simp]:
  "(if c then numel (x\<lparr>requires_grad := v\<rparr>) else numel x) = numel x"
  by simp

lemma freeze_loop_eq:
  "freeze_loop ps (h, t) =
     ((\<lambda>p. if p \<in> set ps then (h p)\<lparr>requires_grad := False\<rparr> else h p),
      t + sum_list (map (\<lambda>p. numel (h p)) ps))"
proof (induction ps arbitrary: h t)
  case Nil
  then show ?case by simp
next
  case (Cons p ps)
  have "(\<lambda>q. if q \<in> set ps
           then ((h(p := (h p)\<lparr>requires_grad := False\<rparr>)) q)\<lparr>requires_grad := False\<rparr>
           else (h(p := (h p)\<lparr>requires_grad := False\<rparr>)) q) =
        (\<lambda>q. if q \<in> set (p # ps) then (h q)\<lparr>requires_grad := False\<rparr> else h q)"
    by (auto simp: fun_eq_iff)
  then show ?case
    by (simp add: Cons.IH add.assoc del: fun_upd_apply set_simps)
qed

lemma unfreeze_layer_eq:
  "unfreeze_layer ps (h, t) =
     ((\<lambda>p. if p \<in> set ps then (h p)\<lparr>requires_grad := True\<rparr> else h p),
      t + sum_list (map (\<lambda>p. numel (h p)) ps))"
proof (induction ps arbitrary: h t)
  case Nil
  then show ?case by simp
next
  case (Cons p ps)
  have "(\<lambda>q. if q \<in> set ps
           then ((h(p := (h p)\<lparr>requires_grad := True\<rparr>)) q)\<lparr>requires_grad := True\<rparr>
           else (h(p := (h p)\<lparr>requires_grad := True\<rparr>)) q) =
        (\<lambda>q. if q \<in> set (p # ps) then (h q)\<lparr>requires_grad := True\<rparr> else h q)"
    by (auto simp: fun_eq_iff)
  then show ?case
    by (simp add: Cons.IH add.assoc del: fun_upd_apply set_simps)
qed

lemma unfreeze_layers_eq:
  "unfreeze_layers layers (h, t) =
     ((\<lambda>p. if p \<in> set (concat layers) then (h p)\<lparr>requires_grad := True\<rparr> else h p),
      t + sum_list (map (\<lambda>p. numel (h p)) (concat layers)))"
proof (induction layers arbitrary: h t)
  case Nil
  then show ?case by simp
next
  case (Cons layer layers)
  show ?case
    by (simp add: unfreeze_layer_eq Cons.IH add.assoc if_distrib [of numel])
      (auto simp: fun_eq_iff)
qed

lemma sum_list_filter_split:
  "sum_list (map f (filter (\<lambda>x. \<not> P x) xs)) + sum_list (map f (filter P xs)) =
   (sum_list (map f xs) :: nat)"
  by (induction xs) simp_all

lemma sum_list_filter_member:
  assumes "distinct xs" and "distinct ys" and "set ys \<subseteq> set xs"
  shows "sum_list (map f (filter (\<lambda>x. x \<in> set ys) xs)) = (sum_list (map f ys) :: nat)"
proof -
  have "sum_list (map f (filter (\<lambda>x. x \<in> set ys) xs)) =
      sum f (set (filter (\<lambda>x. x \<in> set ys) xs))"
    using assms(1) by (simp add: sum_list_distinct_conv_sum_set)
  also have "set (filter (\<lambda>x. x \<in> set ys) xs) = set ys"
    using assms(3) by auto
  also have "sum f (set ys) = sum_list (map f ys)"
    using assms(2) by (simp add: sum_list_distinct_conv_sum_set)
  finally show ?thesis .
qed

text \<open>
  C5. After the freezing cell, the elements of the model parameters left with
  \<^verbatim>\<open>requires_grad\<close> false plus the count \<^verbatim>\<open>trainable_params\<close> equal \<^verbatim>\<open>total_params\<close>,
  and \<^verbatim>\<open>trainable_params\<close> is the number of elements of the parameters with
  \<^verbatim>\<open>requires_grad\<close> true. The hypotheses are what \<^verbatim>\<open>torch\<close> gives for the three
  modules of the notebook: \<^verbatim>\<open>model.parameters()\<close> yields each parameter once, the
  trainable layers are sub-modules of the model, and they share no parameter.
\<close>

theorem frozen_plus_trainable_is_total:
  assumes "distinct model_parameters"
    and "distinct (concat trainable_layers)"
    and "set (concat trainable_layers) \<subseteq> set model_parameters"
  shows
    "frozen_count (params_store (freeze_cell model_parameters trainable_layers h)) model_parameters +
       trainable_params (freeze_cell model_parameters trainable_layers h) =
     total_params (freeze_cell model_parameters trainable_layers h) \<and>
     trainable_params (freeze_cell model_parameters trainable_layers h) =
       trainable_count (params_store (freeze_cell model_parameters trainable_layers h))
         model_parameters"
proof -
  let ?L = "concat trainable_layers"
  let ?h2 = "\<lambda>p. if p \<in> set ?L then (if p \<in> set model_parameters
      then (h p)\<lparr>requires_grad := False\<rparr> else h p)\<lparr>requires_grad := True\<rparr>
    else (if p \<in> set model_parameters then (h p)\<lparr>requires_grad := False\<rparr> else h p)"
  have cell: "freeze_cell model_parameters trainable_layers h =
      \<lparr>params_store = ?h2,
       total_params = sum_list (map (\<lambda>p. numel (h p)) model_parameters),
       trainable_params = sum_list (map (\<lambda>p. numel (h p)) ?L)\<rparr>"
    by (simp add: freeze_cell_def freeze_loop_eq unfreeze_layers_eq if_distrib [of numel])
  have frozen: "frozen_count ?h2 model_parameters =
      sum_list (map (\<lambda>p. numel (h p)) (filter (\<lambda>p. p \<notin> set ?L) model_parameters))"
    unfolding frozen_count_def
    by (rule arg_cong [where f = sum_list]) (auto intro!: map_cong filter_cong)
  have trainable: "trainable_count ?h2 model_parameters =
      sum_list (map (\<lambda>p. numel (h p)) (filter (\<lambda>p. p \<in> set ?L) model_parameters))"
    unfolding trainable_count_def
    by (rule arg_cong [where f = sum_list]) (auto intro!: map_cong filter_cong)
  have member: "sum_list (map (\<lambda>p. numel (h p)) (filter (\<lambda>p. p \<in> set ?L) model_parameters)) =
      sum_list (map (\<lambda>p. numel (h p)) ?L)"
    using assms by (rule sum_list_filter_member)
  have sel: "params_store (freeze_cell model_parameters trainable_layers h) = ?h2"
    "total_params (freeze_cell model_parameters trainable_layers h) =
      sum_list (map (\<lambda>p. numel (h p)) model_parameters)"
    "trainable_params (freeze_cell model_parameters trainable_layers h) =
      sum_list (map (\<lambda>p. numel (h p)) ?L)"
    by (simp_all only: cell freeze_result.select_convs)
  have total: "frozen_count ?h2 model_parameters + sum_list (map (\<lambda>p. numel (h p)) ?L) =
      sum_list (map (\<lambda>p. numel (h p)) model_parameters)"
    unfolding frozen member [symmetric] by (rule sum_list_filter_split)
  have count: "sum_list (map (\<lambda>p. numel (h p)) ?L) = trainable_count ?h2 model_parameters"
    unfolding trainable member ..
  show ?thesis
    unfolding sel by (rule conjI [OF total count])
qed

theorem frozen_plus_trainable_is_total_witness:
  "frozen_count (params_store (freeze_cell [0, 1, 2, 3, 4] [[2], [3], [4]] tiny_store))
     [0, 1, 2, 3, 4] +
   trainable_params (freeze_cell [0, 1, 2, 3, 4] [[2], [3], [4]] tiny_store) =
   total_params (freeze_cell [0, 1, 2, 3, 4] [[2], [3], [4]] tiny_store) \<and>
   total_params (freeze_cell [0, 1, 2, 3, 4] [[2], [3], [4]] tiny_store) = 15 \<and>
   trainable_params (freeze_cell [0, 1, 2, 3, 4] [[2], [3], [4]] tiny_store) = 12"
proof -
  have "total_params (freeze_cell [0, 1, 2, 3, 4] [[2], [3], [4]] tiny_store) = 15"
    and "trainable_params (freeze_cell [0, 1, 2, 3, 4] [[2], [3], [4]] tiny_store) = 12"
    by (simp_all add: freeze_cell_def tiny_store_def)
  with frozen_plus_trainable_is_total [of "[0, 1, 2, 3, 4]" "[[2], [3], [4]]" tiny_store]
  show ?thesis by simp
qed

section \<open>Failures\<close>



end
